theory Spec2Isabelle
  imports Main "HOL-Library.Word" "HOL-Library.Signed_Division"
begin

section \<open>cloud-watch-client: a shallow embedding of main.go\<close>

text \<open>
  The program lists the CloudWatch log groups under a name prefix, starts one Insights
  query per group, polls each query until the service reports it complete, and prints
  the message of every result. The AWS client, the Go \<open>time\<close> package and the zap logger
  are libraries: the client's three calls and \<open>time.Parse\<close> are parameters of the model,
  the logger's entries are recorded as events of their own.
\<close>

subsection \<open>Values of the libraries\<close>

text \<open>A Go \<open>error\<close>, seen through the text that \<open>fmt.Println(err)\<close> prints.\<close>

datatype error = Error (message: string)

text \<open>
  \<open>time.Time\<close>, seen through the two accessors that \<open>UnixNano\<close> reads: \<open>unixSec()\<close>, an
  \<open>int64\<close> of seconds since 1970-01-01T00:00:00Z, and \<open>nsec()\<close>, an \<open>int32\<close> of
  nanoseconds within that second.
\<close>

record Time =
  unixSec :: "64 word"
  nsec :: "32 word"

text \<open>
  \<open>func (t Time) UnixNano() int64 { return (t.unixSec())*1e9 + int64(t.nsec()) }\<close>:
  \<open>int64\<close> arithmetic, which wraps around.
\<close>

definition UnixNano :: "Time \<Rightarrow> 64 word" where
  "UnixNano t = unixSec t * 1000000000 + scast (nsec t)"

text \<open>Go's \<open>/\<close> on \<open>int64\<close> truncates towards zero; the quotient wraps to 64 bits.\<close>

definition int64_div :: "64 word \<Rightarrow> 64 word \<Rightarrow> 64 word" where
  "int64_div a b = word_of_int (sint a sdiv sint b)"

text \<open>\<open>time.Millisecond\<close> is the \<open>Duration\<close> (an \<open>int64\<close> of nanoseconds) \<open>1000000\<close>.\<close>

definition Millisecond :: "64 word" where
  "Millisecond = 1000000"

text \<open>\<open>aws.StringValue\<close>: the string a \<open>*string\<close> points to, the empty string for nil.\<close>

definition StringValue :: "string option \<Rightarrow> string" where
  "StringValue p = (case p of None \<Rightarrow> [] | Some s \<Rightarrow> s)"

subsection \<open>The program's own data\<close>

record options =
  Region :: string
  Profile :: string
  GroupName :: string
  Start :: string
  End :: string
  KeyWord :: string

text \<open>The defaults of the struct tags; \<open>Profile\<close> and \<open>KeyWord\<close> have none.\<close>

definition default_options :: "string \<Rightarrow> options" where
  "default_options keyword =
     \<lparr>Region = ''ap-northeast-1'', Profile = [], GroupName = ''/'',
      Start = ''2022-09-22T00:00:00+09:00'', End = ''2022-09-22T00:30:00+09:00'',
      KeyWord = keyword\<rparr>"

record QueryResult =
  Timestamp :: string
  LogStream :: string
  Message :: string

text \<open>\<open>var q QueryResult\<close>: the zero value.\<close>

definition zero_QueryResult :: QueryResult where
  "zero_QueryResult = \<lparr>Timestamp = [], LogStream = [], Message = []\<rparr>"

text \<open>
  \<open>cloudwatchlogs.ResultField\<close>: both fields are \<open>*string\<close>. (The field is \<open>Field\<close> in
  the SDK; the name is primed here because HOL has a constant \<open>Field\<close>.)
\<close>

record ResultField =
  Field' :: "string option"
  Value :: "string option"

text \<open>
  \<open>cloudwatchlogs.GetQueryResultsOutput\<close>, the two fields the program reads:
  \<open>Status *string\<close> and \<open>Results [][]*ResultField\<close>. An element of a record is a
  pointer: \<open>None\<close> is the nil element.
\<close>

record GetQueryResultsOutput =
  Status :: "string option"
  Results :: "ResultField option list list"

record StartQueryInput =
  StartTime :: "64 word"
  EndTime :: "64 word"
  LogGroupName :: string
  QueryString :: string

subsection \<open>Time codec\<close>

text \<open>
  \<open>ParseTime\<close> (main.go 72-79) hands its argument to \<open>time.Parse(time.RFC3339, _)\<close>,
  here the parameter \<open>time_Parse\<close>, and returns the error or the parsed time unchanged.
\<close>

definition ParseTime :: "(string \<Rightarrow> error + Time) \<Rightarrow> string \<Rightarrow> error + Time" where
  "ParseTime time_Parse target =
     (case time_Parse target of
        Inl err \<Rightarrow> Inl err
      | Inr parsed \<Rightarrow> Inr parsed)"

text \<open>\<open>UnixMillisecond\<close> (main.go 81-83).\<close>

definition UnixMillisecond :: "Time \<Rightarrow> 64 word" where
  "UnixMillisecond target = int64_div (UnixNano target) Millisecond"

text \<open>
  What the specification asks of the conversion: the instant's nanoseconds since the
  epoch, as an unbounded integer, and the millisecond the instant lies in, which is the
  timestamp with its digits below the millisecond dropped (the last whole millisecond
  not after the instant, also before 1970).
\<close>

definition epoch_nanoseconds :: "Time \<Rightarrow> int" where
  "epoch_nanoseconds t = sint (unixSec t) * 1000000000 + sint (nsec t)"

definition epoch_milliseconds :: "Time \<Rightarrow> int" where
  "epoch_milliseconds t = epoch_nanoseconds t div 1000000"

subsection \<open>Query builder\<close>

text \<open>
  \<open>AssembleQuery\<close> (main.go 103-105) returns the pair \<open>(string, error)\<close>; \<open>%v\<close> of a
  string is the string itself. \<open>None\<close> is the nil error.
\<close>

definition AssembleQuery :: "string \<Rightarrow> string \<times> error option" where
  "AssembleQuery keyword =
     (''fields @timestamp, @message, @logStream | filter @message '' @ keyword, None)"

subsection \<open>Result normaliser\<close>

text \<open>The \<open>switch\<close> of main.go 168-177, one element of a record at a time.\<close>

definition assign_field :: "QueryResult \<Rightarrow> ResultField \<Rightarrow> QueryResult" where
  "assign_field q element =
     (let f = StringValue (Field' element) in
      if f = ''@timestamp'' then q\<lparr>Timestamp := StringValue (Value element)\<rparr>
      else if f = ''@logStream'' then q\<lparr>LogStream := StringValue (Value element)\<rparr>
      else if f = ''@message'' then q\<lparr>Message := StringValue (Value element)\<rparr>
      else q)"

text \<open>
  The inner loop (main.go 167-179) over the elements left of a record. An element is a
  \<open>*ResultField\<close>, and \<open>element.Field\<close> on a nil element panics: \<open>None\<close> is that panic.
\<close>

fun assign_fields :: "QueryResult \<Rightarrow> ResultField option list \<Rightarrow> QueryResult option" where
  "assign_fields q [] = Some q"
| "assign_fields q (None # elements) = None"
| "assign_fields q (Some element # elements) = assign_fields (assign_field q element) elements"

text \<open>One record (main.go 166-179): the loop starts from the zero value.\<close>

definition normalize_record :: "ResultField option list \<Rightarrow> QueryResult option" where
  "normalize_record record = assign_fields zero_QueryResult record"

text \<open>
  The outer loop (main.go 164-182) over the records left: one \<open>append\<close> per record,
  unless its normalisation panicked.
\<close>

fun append_results ::
  "QueryResult list \<Rightarrow> ResultField option list list \<Rightarrow> QueryResult list option" where
  "append_results result [] = Some result"
| "append_results result (record # records) =
     (case normalize_record record of
        None \<Rightarrow> None
      | Some q \<Rightarrow> append_results (result @ [q]) records)"

text \<open>\<open>var result []QueryResult\<close> and the loop (main.go 163-182).\<close>

definition normalize :: "ResultField option list list \<Rightarrow> QueryResult list option" where
  "normalize results = append_results [] results"

subsection \<open>The service and what the process does\<close>

text \<open>
  The three calls the program makes on \<open>*cloudwatchlogs.CloudWatchLogs\<close>. The service
  is outside the program: a call takes the service's state \<open>'s\<close> and returns the
  \<open>(output, error)\<close> pair as a sum, with the next state. Of each input and output only
  what the program sets or reads is kept: the name prefix and every group's
  \<open>LogGroupName *string\<close> for \<open>DescribeLogGroups\<close>, the \<open>QueryId *string\<close> that
  \<open>StartQuery\<close> returns, the query id that \<open>GetQueryResults\<close> is given.
\<close>

record 's CloudWatchLogs =
  DescribeLogGroups :: "string \<Rightarrow> 's \<Rightarrow> (error + string option list) \<times> 's"
  StartQuery :: "StartQueryInput \<Rightarrow> 's \<Rightarrow> (error + string option) \<times> 's"
  GetQueryResults :: "string \<Rightarrow> 's \<Rightarrow> (error + GetQueryResultsOutput) \<times> 's"

text \<open>
  What a run does, in order: lines of \<open>fmt.Println\<close>, entries of the zap logger
  (\<open>Debug\<close>, \<open>Fatal\<close>), \<open>time.Sleep\<close> with its seconds, and the calls on the service.
\<close>

datatype event =
  Println string
  | Debug string
  | Fatal string
  | Sleep nat
  | CallDescribeLogGroups string
  | CallStartQuery StartQueryInput
  | CallGetQueryResults string

record 's world =
  service :: 's
  trace :: "event list"

definition emit :: "event \<Rightarrow> 's world \<Rightarrow> 's world" where
  "emit e w = w\<lparr>trace := trace w @ [e]\<rparr>"

text \<open>
  How a function of the program ends: it returns, it panics (a nil pointer is
  dereferenced), or the process exits through \<open>os.Exit\<close>.
\<close>

datatype 'a ctl = Ret 'a | Panic | OsExit nat

definition call_DescribeLogGroups ::
  "'s CloudWatchLogs \<Rightarrow> string \<Rightarrow> 's world \<Rightarrow> (error + string option list) \<times> 's world" where
  "call_DescribeLogGroups client prefix w =
     (case DescribeLogGroups client prefix (service w) of
        (r, s) \<Rightarrow> (r, emit (CallDescribeLogGroups prefix) (w\<lparr>service := s\<rparr>)))"

definition call_StartQuery ::
  "'s CloudWatchLogs \<Rightarrow> StartQueryInput \<Rightarrow> 's world \<Rightarrow> (error + string option) \<times> 's world" where
  "call_StartQuery client input w =
     (case StartQuery client input (service w) of
        (r, s) \<Rightarrow> (r, emit (CallStartQuery input) (w\<lparr>service := s\<rparr>)))"

definition call_GetQueryResults ::
  "'s CloudWatchLogs \<Rightarrow> string \<Rightarrow> 's world \<Rightarrow> (error + GetQueryResultsOutput) \<times> 's world" where
  "call_GetQueryResults client query w =
     (case GetQueryResults client query (service w) of
        (r, s) \<Rightarrow> (r, emit (CallGetQueryResults query) (w\<lparr>service := s\<rparr>)))"

subsection \<open>Group discovery\<close>

text \<open>
  The loop of main.go 96-98: \<open>*k.LogGroupName\<close> panics on a nil name; \<open>None\<close> is that
  panic.
\<close>

fun append_names :: "string list \<Rightarrow> string option list \<Rightarrow> string list option" where
  "append_names sarr [] = Some sarr"
| "append_names sarr (k # ks) =
     (case k of None \<Rightarrow> None | Some name \<Rightarrow> append_names (sarr @ [name]) ks)"

text \<open>\<open>GetGroupAll\<close> (main.go 87-101); \<open>var sarr []string\<close> is the empty slice.\<close>

definition GetGroupAll :: "'s CloudWatchLogs \<Rightarrow> options \<Rightarrow> 's world \<Rightarrow> string list ctl \<times> 's world" where
  "GetGroupAll client opts w =
     (case call_DescribeLogGroups client (GroupName opts) w of
        (Inl err, w1) \<Rightarrow> (Ret [], w1)
      | (Inr v, w1) \<Rightarrow>
          (case append_names [] v of
             None \<Rightarrow> (Panic, w1)
           | Some sarr \<Rightarrow> (Ret sarr, emit (Debug ''sarr'') w1)))"

subsection \<open>Query submitter\<close>

text \<open>\<open>DoQuery\<close> (main.go 107-132).\<close>

definition DoQuery ::
  "'s CloudWatchLogs \<Rightarrow> (string \<Rightarrow> error + Time) \<Rightarrow> options \<Rightarrow> string \<Rightarrow> string \<Rightarrow> 's world
     \<Rightarrow> (error + string) \<times> 's world" where
  "DoQuery client time_Parse opts logGroup query w =
     (let w0 = emit (Debug ''query'') w in
      case ParseTime time_Parse (Start opts) of
        Inl err \<Rightarrow> (Inl err, w0)
      | Inr ParsedFrom \<Rightarrow>
          (case ParseTime time_Parse (End opts) of
             Inl err \<Rightarrow> (Inl err, w0)
           | Inr ParsedTo \<Rightarrow>
               (let input = \<lparr>StartTime = UnixMillisecond ParsedFrom,
                             EndTime = UnixMillisecond ParsedTo,
                             LogGroupName = logGroup,
                             QueryString = query\<rparr>
                in case call_StartQuery client input w0 of
                     (Inl err, w1) \<Rightarrow> (Inl err, w1)
                   | (Inr QueryId, w1) \<Rightarrow> (Inr (StringValue QueryId), w1))))"

subsection \<open>Result poller\<close>

text \<open>
  The \<open>for\<close> loop of main.go 150-160, entered with the latest output \<open>out\<close>. It has no
  bound: \<open>None\<close> is a loop that never ends. \<open>*out.Status\<close> panics on a nil status. In
  the body the call comes first, then the logger's entry, then the sleep of ten seconds.
\<close>

partial_function (option) wait_loop ::
  "'s CloudWatchLogs \<Rightarrow> string \<Rightarrow> GetQueryResultsOutput \<Rightarrow> 's world
     \<Rightarrow> ((error + GetQueryResultsOutput) ctl \<times> 's world) option" where
  "wait_loop client query out w =
     (case Status out of
        None \<Rightarrow> Some (Panic, w)
      | Some status \<Rightarrow>
          if status = ''Complete'' then Some (Ret (Inr out), w)
          else
            (case call_GetQueryResults client query w of
               (Inl err, w1) \<Rightarrow> Some (Ret (Inl err), w1)
             | (Inr out', w1) \<Rightarrow>
                 wait_loop client query out' (emit (Sleep 10) (emit (Debug ''wait'') w1))))"

text \<open>
  \<open>Result\<close> (main.go 140-186): the first call, the loop when \<open>wait\<close> is set, then the
  normalisation of the latest output, which panics on a nil element.
\<close>

definition Result ::
  "'s CloudWatchLogs \<Rightarrow> string \<Rightarrow> bool \<Rightarrow> 's world
     \<Rightarrow> ((error + QueryResult list) ctl \<times> 's world) option" where
  "Result client query wait w =
     (case call_GetQueryResults client query w of
        (Inl err, w1) \<Rightarrow> Some (Ret (Inl err), w1)
      | (Inr out, w1) \<Rightarrow>
          (case (if wait then wait_loop client query out w1 else Some (Ret (Inr out), w1)) of
             None \<Rightarrow> None
           | Some (Ret (Inl err), w2) \<Rightarrow> Some (Ret (Inl err), w2)
           | Some (Ret (Inr out'), w2) \<Rightarrow>
               (case normalize (Results out') of
                  None \<Rightarrow> Some (Panic, w2)
                | Some result \<Rightarrow> Some (Ret (Inr result), w2))
           | Some (Panic, w2) \<Rightarrow> Some (Panic, w2)
           | Some (OsExit n, w2) \<Rightarrow> Some (OsExit n, w2)))"

subsection \<open>Orchestrator\<close>

text \<open>The innermost loop of \<open>main\<close> (main.go 228-230).\<close>

definition print_messages :: "QueryResult list \<Rightarrow> 's world \<Rightarrow> 's world" where
  "print_messages res w = foldl (\<lambda>w r. emit (Println (Message r)) w) w res"

text \<open>
  The loop over the groups (main.go 218-231). An error of \<open>DoQuery\<close> is printed and the
  process exits with status 1. An error of \<open>Result\<close> goes to \<open>logger.Fatal\<close>, which
  writes its entry and then calls \<open>os.Exit(1)\<close>.
\<close>

fun main_loop ::
  "'s CloudWatchLogs \<Rightarrow> (string \<Rightarrow> error + Time) \<Rightarrow> options \<Rightarrow> string \<Rightarrow> string list \<Rightarrow> 's world
     \<Rightarrow> (unit ctl \<times> 's world) option" where
  "main_loop client time_Parse opts q [] w = Some (Ret (), w)"
| "main_loop client time_Parse opts q (v # vs) w =
     (case DoQuery client time_Parse opts v q w of
        (Inl err, w1) \<Rightarrow> Some (OsExit 1, emit (Println (message err)) w1)
      | (Inr t, w1) \<Rightarrow>
          (case Result client t True w1 of
             None \<Rightarrow> None
           | Some (Ret (Inl err), w2) \<Rightarrow> Some (OsExit 1, emit (Fatal ''fatal'') w2)
           | Some (Ret (Inr res), w2) \<Rightarrow>
               main_loop client time_Parse opts q vs (print_messages res w2)
           | Some (Panic, w2) \<Rightarrow> Some (Panic, w2)
           | Some (OsExit n, w2) \<Rightarrow> Some (OsExit n, w2)))"

text \<open>
  \<open>assembleQuery\<close> (main.go 192-194) takes any \<open>Logger\<close> (the interface of main.go
  46-49) and calls its \<open>AssembleQuery\<close> method on the keyword option; the method of the
  value passed is the parameter \<open>l_AssembleQuery\<close>.
\<close>

definition assembleQuery ::
  "(string \<Rightarrow> string \<times> error option) \<Rightarrow> options \<Rightarrow> string \<times> error option" where
  "assembleQuery l_AssembleQuery opts = l_AssembleQuery (KeyWord opts)"

text \<open>
  The query is built once (main.go 214-217): an error is printed, and the run goes on
  with the string that came back.
\<close>

definition build_query_via ::
  "(string \<Rightarrow> string \<times> error option) \<Rightarrow> options \<Rightarrow> 's world \<Rightarrow> string \<times> 's world" where
  "build_query_via l_AssembleQuery opts w =
     (case assembleQuery l_AssembleQuery opts of
        (q, Some err) \<Rightarrow> (q, emit (Println (message err)) w)
      | (q, None) \<Rightarrow> (q, w))"

text \<open>
  The orchestration proper (main.go 213-231), given the client and the \<open>Logger\<close> whose
  method builds the query: build the query, discover the groups, run the loop.
\<close>

definition orchestrate_via ::
  "(string \<Rightarrow> string \<times> error option) \<Rightarrow> 's CloudWatchLogs \<Rightarrow> (string \<Rightarrow> error + Time)
     \<Rightarrow> options \<Rightarrow> 's world \<Rightarrow> (unit ctl \<times> 's world) option" where
  "orchestrate_via l_AssembleQuery client time_Parse opts w =
     (case build_query_via l_AssembleQuery opts w of
        (q, w1) \<Rightarrow>
          (case GetGroupAll client opts w1 of
             (Ret groups, w2) \<Rightarrow> main_loop client time_Parse opts q groups w2
           | (Panic, w2) \<Rightarrow> Some (Panic, w2)
           | (OsExit n, w2) \<Rightarrow> Some (OsExit n, w2)))"

text \<open>
  \<open>main\<close> passes \<open>cloudwatch\<close>, a \<open>Logs\<close>, whose method is \<open>AssembleQuery\<close> above.
\<close>

definition build_query :: "options \<Rightarrow> 's world \<Rightarrow> string \<times> 's world" where
  "build_query opts w = build_query_via AssembleQuery opts w"

definition orchestrate ::
  "'s CloudWatchLogs \<Rightarrow> (string \<Rightarrow> error + Time) \<Rightarrow> options \<Rightarrow> 's world
     \<Rightarrow> (unit ctl \<times> 's world) option" where
  "orchestrate client time_Parse opts w = orchestrate_via AssembleQuery client time_Parse opts w"

text \<open>
  \<open>main\<close> (main.go 196-232) once the flags are parsed into \<open>opts\<close> and the session is
  made: it echoes the keyword (main.go 203) before anything else.
\<close>

definition main ::
  "'s CloudWatchLogs \<Rightarrow> (string \<Rightarrow> error + Time) \<Rightarrow> options \<Rightarrow> 's world
     \<Rightarrow> (unit ctl \<times> 's world) option" where
  "main client time_Parse opts w =
     orchestrate client time_Parse opts (emit (Println (KeyWord opts)) w)"

text \<open>Readings of a trace.\<close>

fun printed :: "event list \<Rightarrow> string list" where
  "printed [] = []"
| "printed (Println s # es) = s # printed es"
| "printed (e # es) = printed es"

fun get_results_calls :: "event list \<Rightarrow> nat" where
  "get_results_calls [] = 0"
| "get_results_calls (CallGetQueryResults q # es) = Suc (get_results_calls es)"
| "get_results_calls (e # es) = get_results_calls es"

fun submitted :: "event list \<Rightarrow> string list" where
  "submitted [] = []"
| "submitted (CallStartQuery input # es) = LogGroupName input # submitted es"
| "submitted (e # es) = submitted es"

text \<open>
  Standard output. \<open>NewLogger\<close> (main.go 16-44) builds the logger with
  \<open>OutputPaths: []string{"stdout"}\<close> and \<open>New\<close> gives it \<open>zap.DebugLevel\<close> (main.go
  59), so every \<open>Debug\<close> and \<open>Fatal\<close> entry is one JSON line on standard output, next to
  the lines of \<open>fmt.Println\<close>. Of a logger's line the level (as the capital level
  encoder writes it) and the message are kept.
\<close>

datatype line = Text string | Entry string string

fun stdout :: "event list \<Rightarrow> line list" where
  "stdout [] = []"
| "stdout (Println s # es) = Text s # stdout es"
| "stdout (Debug m # es) = Entry ''DEBUG'' m # stdout es"
| "stdout (Fatal m # es) = Entry ''FATAL'' m # stdout es"
| "stdout (e # es) = stdout es"


definition stdout_of :: "('a ctl \<times> 's world) option \<Rightarrow> line list option" where
  "stdout_of r = map_option (stdout \<circ> trace \<circ> snd) r"






declare wait_loop.simps [code]

subsection \<open>The specification's reading of a record\<close>

text \<open>
  The value a normalised field is specified to hold: that of the last pair of the record
  carrying the field's name, the empty string when no pair carries it.
\<close>

definition last_value :: "string \<Rightarrow> ResultField list \<Rightarrow> string" where
  "last_value name record =
     (case find (\<lambda>element. StringValue (Field' element) = name) (rev record) of
        None \<Rightarrow> []
      | Some element \<Rightarrow> StringValue (Value element))"

definition recognized :: "ResultField \<Rightarrow> bool" where
  "recognized element =
     (StringValue (Field' element) = ''@timestamp''
      \<or> StringValue (Field' element) = ''@logStream''
      \<or> StringValue (Field' element) = ''@message'')"

subsection \<open>Test doubles\<close>

text \<open>
  Services with scripted answers; their state counts the calls made so far. The record
  they return is the one of the specification's examples.
\<close>

definition sample_record :: "ResultField option list" where
  "sample_record =
     [Some \<lparr>Field' = Some ''@timestamp'', Value = Some ''T1''\<rparr>,
      Some \<lparr>Field' = Some ''@message'', Value = Some ''M1''\<rparr>,
      Some \<lparr>Field' = Some ''@logStream'', Value = Some ''S1''\<rparr>]"

text \<open>Two groups; every query is complete at the first poll.\<close>

definition complete_service :: "nat CloudWatchLogs" where
  "complete_service =
     \<lparr>DescribeLogGroups = (\<lambda>prefix n. (Inr [Some ''/app/a'', Some ''/app/b''], Suc n)),
      StartQuery = (\<lambda>input n. (Inr (Some (''query'' @ LogGroupName input)), Suc n)),
      GetQueryResults = (\<lambda>query n.
        (Inr \<lparr>Status = Some ''Complete'', Results = [sample_record]\<rparr>, Suc n))\<rparr>"

text \<open>The first two polls report \<open>Running\<close>, the third \<open>Complete\<close>.\<close>

definition slow_service :: "nat CloudWatchLogs" where
  "slow_service =
     \<lparr>DescribeLogGroups = (\<lambda>prefix n. (Inr [], n)),
      StartQuery = (\<lambda>input n. (Inr (Some ''q1''), n)),
      GetQueryResults = (\<lambda>query n.
        (Inr \<lparr>Status = Some (if n < 2 then ''Running'' else ''Complete''),
              Results = (if n < 2 then [] else [sample_record])\<rparr>, Suc n))\<rparr>"

text \<open>Listing the groups fails.\<close>

definition failing_discovery :: "nat CloudWatchLogs" where
  "failing_discovery =
     \<lparr>DescribeLogGroups = (\<lambda>prefix n. (Inl (Error ''AccessDeniedException''), Suc n)),
      StartQuery = (\<lambda>input n. (Inr (Some (''query'' @ LogGroupName input)), Suc n)),
      GetQueryResults = (\<lambda>query n.
        (Inr \<lparr>Status = Some ''Complete'', Results = [sample_record]\<rparr>, Suc n))\<rparr>"





text \<open>
  A stand-in for \<open>time.Parse\<close> that knows the two default time strings:
  2022-09-22T00:00:00+09:00 is 1663772400 seconds after the epoch.
\<close>

definition parse_defaults :: "string \<Rightarrow> error + Time" where
  "parse_defaults target =
     (if target = ''2022-09-22T00:00:00+09:00'' then Inr \<lparr>unixSec = 1663772400, nsec = 0\<rparr>
      else if target = ''2022-09-22T00:30:00+09:00'' then Inr \<lparr>unixSec = 1663774200, nsec = 0\<rparr>
      else Inl (Error ''cannot parse''))"

section \<open>Properties\<close>

subsection \<open>Time codec\<close>

lemma ParseTime_forwards: "ParseTime time_Parse target = time_Parse target"
  by (simp add: ParseTime_def split: sum.splits)

lemma UnixNano_word_of_int: "UnixNano t = word_of_int (epoch_nanoseconds t)"
proof -
  have "word_of_int (sint (unixSec t) * 1000000000 + sint (nsec t))
        = (word_of_int (sint (unixSec t)) :: 64 word) * word_of_int 1000000000
          + word_of_int (sint (nsec t))"
    by (simp only: wi_hom_syms)
  also have "\<dots> = unixSec t * 1000000000 + scast (nsec t)"
    by (simp only: scast_eq[symmetric] word_of_int_numeral scast_id)
  finally show ?thesis
    by (simp only: UnixNano_def epoch_nanoseconds_def)
qed

lemma sint_UnixNano:
  assumes "- (2 ^ 63) \<le> epoch_nanoseconds t" "epoch_nanoseconds t < 2 ^ 63"
  shows "sint (UnixNano t) = epoch_nanoseconds t"
  using assms by (simp add: UnixNano_word_of_int sint_sbintrunc' signed_take_bit_int_eq_self)

lemma div_million_le:
  fixes n :: int
  assumes "0 \<le> n"
  shows "0 \<le> n div 1000000 \<and> n div 1000000 \<le> n"
  using assms by (cases "n = 0") (simp_all add: int_div_le_self pos_imp_zdiv_nonneg_iff)

lemma sdiv_million_bounds:
  fixes n :: int
  assumes "- (2 ^ 63) \<le> n" "n < 2 ^ 63"
  shows "- (2 ^ 63) \<le> n sdiv 1000000 \<and> n sdiv 1000000 < 2 ^ 63"
proof (cases "0 \<le> n")
  case True
  then have "n sdiv 1000000 = n div 1000000"
    by (simp add: signed_divide_int_def sgn_if)
  moreover have "0 \<le> n div 1000000 \<and> n div 1000000 \<le> n"
    using True by (rule div_million_le)
  ultimately show ?thesis using assms by simp
next
  case False
  then have eq: "n sdiv 1000000 = - ((- n) div 1000000)"
    by (simp add: signed_divide_int_def sgn_if)
  have "0 \<le> - n" using False by simp
  then have "0 \<le> (- n) div 1000000 \<and> (- n) div 1000000 \<le> - n"
    by (rule div_million_le)
  then show ?thesis using assms eq by simp
qed

text \<open>
  While the instant's nanoseconds since the epoch fit an \<open>int64\<close> (from 1677-09-21 to
  2262-04-11), \<open>UnixMillisecond\<close> is their quotient by one million, rounded towards
  zero.
\<close>

lemma UnixMillisecond_towards_zero:
  assumes "- (2 ^ 63) \<le> epoch_nanoseconds t" "epoch_nanoseconds t < 2 ^ 63"
  shows "sint (UnixMillisecond t) = epoch_nanoseconds t sdiv 1000000"
proof -
  have "sint (UnixMillisecond t) = signed_take_bit 63 (epoch_nanoseconds t sdiv 1000000)"
    by (simp add: UnixMillisecond_def int64_div_def Millisecond_def sint_UnixNano[OF assms]
        sint_sbintrunc')
  also have "\<dots> = epoch_nanoseconds t sdiv 1000000"
    using sdiv_million_bounds[OF assms] by (simp add: signed_take_bit_int_eq_self)
  finally show ?thesis .
qed

text \<open>
  From 1970 to 2262-04-11 that is the millisecond the instant lies in.
\<close>

lemma UnixMillisecond_in_range:
  assumes "0 \<le> epoch_nanoseconds t" "epoch_nanoseconds t < 2 ^ 63"
  shows "sint (UnixMillisecond t) = epoch_milliseconds t"
proof -
  have "- (2 ^ 63) \<le> epoch_nanoseconds t"
    using assms(1) by simp
  then have "sint (UnixMillisecond t) = epoch_nanoseconds t sdiv 1000000"
    using assms(2) by (rule UnixMillisecond_towards_zero)
  also have "\<dots> = epoch_nanoseconds t div 1000000"
    using assms(1) by (simp add: signed_divide_int_def sgn_if)
  finally show ?thesis by (simp add: epoch_milliseconds_def)
qed

text \<open>
  Before 1970 the rounding towards zero is one millisecond late whenever the instant
  has a part below the millisecond: 1969-12-31T23:59:59.9995Z lies in millisecond -1,
  and \<open>UnixMillisecond\<close> gives 0.
\<close>

lemma UnixMillisecond_before_1970:
  "sint (UnixMillisecond \<lparr>unixSec = - 1, nsec = 999500000\<rparr>) = 0
   \<and> epoch_milliseconds \<lparr>unixSec = - 1, nsec = 999500000\<rparr> = - 1"
  by (simp add: UnixMillisecond_def UnixNano_def int64_div_def Millisecond_def
      epoch_milliseconds_def epoch_nanoseconds_def signed_divide_int_def)

text \<open>
  Claim C3: for every valid RFC 3339 timestamp, \<open>ParseTime\<close> followed by
  \<open>UnixMillisecond\<close> is the timestamp's milliseconds since the epoch, anything below a
  millisecond cut off. The code does not do this for every timestamp. The valid
  timestamp 2300-01-01T00:00:00Z is the instant 10413792000 seconds after the epoch
  (120530 days of 86400 seconds), which \<open>ParseTime\<close> returns as the library parsed it.
  Its nanosecond count does not fit an \<open>int64\<close>: \<open>UnixNano\<close> wraps around and
  \<open>UnixMillisecond\<close> is negative, where the millisecond count is 10413792000000.
\<close>

theorem UnixMillisecond_wraps_in_2300:
  "sint (UnixMillisecond \<lparr>unixSec = 10413792000, nsec = 0\<rparr>) = - 8032952073709
   \<and> epoch_milliseconds \<lparr>unixSec = 10413792000, nsec = 0\<rparr> = 10413792000000"
  by (simp add: UnixMillisecond_def UnixNano_def int64_div_def Millisecond_def
      epoch_milliseconds_def epoch_nanoseconds_def signed_divide_int_def)

subsection \<open>Query builder\<close>

text \<open>
  Claim C7: \<open>AssembleQuery\<close> of the keyword \<open>error\<close> is exactly the string
  \<open>fields @timestamp, @message, @logStream | filter @message error\<close>, and for any
  keyword the result is the fixed template followed by the keyword as it was given,
  nothing escaped and nothing removed.
\<close>

theorem AssembleQuery_template:
  "fst (AssembleQuery ''error'') =
     ''fields @timestamp, @message, @logStream | filter @message error''
   \<and> (\<forall>keyword. fst (AssembleQuery keyword) =
         ''fields @timestamp, @message, @logStream | filter @message '' @ keyword)"
  by (simp add: AssembleQuery_def)

text \<open>
  Claim C9: for every keyword the error \<open>AssembleQuery\<close> returns is nil, so the branch
  of \<open>main\<close> that prints a query-building error is never taken: building the query
  prints nothing and leaves the world as it was.
\<close>

theorem AssembleQuery_never_fails:
  "snd (AssembleQuery keyword) = None
   \<and> build_query opts w = (fst (AssembleQuery (KeyWord opts)), w)"
  by (simp add: AssembleQuery_def build_query_def build_query_via_def assembleQuery_def)

subsection \<open>Result normaliser\<close>

lemma find_append_cases:
  "find P (xs @ ys) = (case find P xs of None \<Rightarrow> find P ys | Some x \<Rightarrow> Some x)"
  by (induction xs) simp_all

lemma last_value_Nil: "last_value name [] = []"
  by (simp add: last_value_def)

lemma last_value_snoc:
  "last_value name (record @ [element]) =
     (if StringValue (Field' element) = name then StringValue (Value element)
      else last_value name record)"
  by (simp add: last_value_def)

lemma last_value_absent:
  "\<forall>element \<in> set record. StringValue (Field' element) \<noteq> name \<Longrightarrow> last_value name record = []"
  by (simp add: last_value_def find_None_iff[THEN iffD2])

lemma last_value_last:
  assumes "StringValue (Field' element) = name"
      and "\<forall>later \<in> set after. StringValue (Field' later) \<noteq> name"
  shows "last_value name (before @ element # after) = StringValue (Value element)"
proof -
  have "find (\<lambda>e. StringValue (Field' e) = name) (rev after) = None"
    using assms(2) by (simp add: find_None_iff)
  then show ?thesis
    using assms(1) by (simp add: last_value_def find_append_cases)
qed

text \<open>On elements that are all there, the inner loop is a fold of the \<open>switch\<close>.\<close>

lemma assign_fields_Some:
  "assign_fields q (map Some elements) = Some (foldl assign_field q elements)"
  by (induction elements arbitrary: q) simp_all

lemma foldl_assign_field_fields:
  "foldl assign_field zero_QueryResult elements =
     \<lparr>Timestamp = last_value ''@timestamp'' elements,
      LogStream = last_value ''@logStream'' elements,
      Message = last_value ''@message'' elements\<rparr>"
proof (induction elements rule: rev_induct)
  case Nil
  show ?case by (simp add: zero_QueryResult_def last_value_Nil)
next
  case (snoc element elements)
  have "foldl assign_field zero_QueryResult (elements @ [element])
          = assign_field (foldl assign_field zero_QueryResult elements) element"
    by simp
  also have "\<dots> = assign_field
      \<lparr>Timestamp = last_value ''@timestamp'' elements,
       LogStream = last_value ''@logStream'' elements,
       Message = last_value ''@message'' elements\<rparr> element"
    by (simp only: snoc.IH)
  also have "\<dots> =
      \<lparr>Timestamp = last_value ''@timestamp'' (elements @ [element]),
       LogStream = last_value ''@logStream'' (elements @ [element]),
       Message = last_value ''@message'' (elements @ [element])\<rparr>"
    by (simp add: last_value_snoc assign_field_def Let_def)
  finally show ?case .
qed

lemma normalize_record_fields:
  "normalize_record (map Some elements) =
     Some \<lparr>Timestamp = last_value ''@timestamp'' elements,
           LogStream = last_value ''@logStream'' elements,
           Message = last_value ''@message'' elements\<rparr>"
  by (simp add: normalize_record_def assign_fields_Some foldl_assign_field_fields)

lemma assign_field_unrecognized: "\<not> recognized element \<Longrightarrow> assign_field q element = q"
  by (simp add: assign_field_def recognized_def Let_def)

lemma foldl_assign_filter:
  "foldl assign_field q (filter recognized elements) = foldl assign_field q elements"
  by (induction elements arbitrary: q) (simp_all add: assign_field_unrecognized)

text \<open>A nil element anywhere in a record ends the inner loop in a panic.\<close>

lemma assign_fields_nil: "assign_fields q (before @ None # after) = None"
proof (induction before arbitrary: q)
  case Nil
  show ?case by simp
next
  case (Cons element before)
  show ?case by (cases element) (simp_all add: Cons.IH)
qed

lemma append_results_Some:
  "append_results result (map (map Some) records) =
     Some (result @ map (\<lambda>elements.
       \<lparr>Timestamp = last_value ''@timestamp'' elements,
        LogStream = last_value ''@logStream'' elements,
        Message = last_value ''@message'' elements\<rparr>) records)"
  by (induction records arbitrary: result) (simp_all add: normalize_record_fields)

lemma append_results_nil:
  "normalize_record bad = None \<Longrightarrow> append_results result (earlier @ bad # later) = None"
  by (induction earlier arbitrary: result) (simp_all split: option.splits)

text \<open>
  The specification's example: a record with \<open>@ptr\<close> beside the three recognised
  fields.
\<close>

lemma normalize_record_ignores_ptr:
  "normalize_record (Some \<lparr>Field' = Some ''@ptr'', Value = Some ''P1''\<rparr> # sample_record) =
     Some \<lparr>Timestamp = ''T1'', LogStream = ''S1'', Message = ''M1''\<rparr>"
  by (simp add: sample_record_def normalize_record_def assign_field_def StringValue_def
      zero_QueryResult_def)

text \<open>
  Claim C4: for every raw record, normalisation yields exactly one result, whose fields
  hold the values paired with \<open>@timestamp\<close>, \<open>@logStream\<close> and \<open>@message\<close>, the empty
  string for a name the record lacks, other names ignored, and no error is raised. This
  fails on a record that holds a nil element: a record is a \<open>[]*ResultField\<close>, and
  \<open>element.Field\<close> on the nil element panics, so that no result at all is returned.
\<close>

theorem normalize_nil_element_panics:
  "normalize [[Some \<lparr>Field' = Some ''@message'', Value = Some ''M1''\<rparr>, None]] = None"
  by (simp add: normalize_def normalize_record_def assign_field_def StringValue_def)

text \<open>
  Claim C4, amended: for records whose elements are all there, normalisation yields one
  result per record, in the records' order; in each result a field holds the value
  paired with its name (\<open>@timestamp\<close>, \<open>@logStream\<close>, \<open>@message\<close>) in the record, the
  last such pair deciding, and the empty string when the record has no pair of that
  name; pairs of any other name change nothing. A nil element in any record makes the
  whole normalisation panic.
\<close>

theorem normalize_one_per_record:
  "normalize (map (map Some) results) =
     Some (map (\<lambda>elements.
       \<lparr>Timestamp = last_value ''@timestamp'' elements,
        LogStream = last_value ''@logStream'' elements,
        Message = last_value ''@message'' elements\<rparr>) results)
   \<and> normalize_record (map Some (filter recognized elements)) = normalize_record (map Some elements)
   \<and> normalize (earlier @ (before @ None # after) # later) = None"
proof (intro conjI)
  show "normalize (map (map Some) results) =
     Some (map (\<lambda>elements.
       \<lparr>Timestamp = last_value ''@timestamp'' elements,
        LogStream = last_value ''@logStream'' elements,
        Message = last_value ''@message'' elements\<rparr>) results)"
    by (simp add: normalize_def append_results_Some)
  show "normalize_record (map Some (filter recognized elements))
          = normalize_record (map Some elements)"
    by (simp add: normalize_record_def assign_fields_Some foldl_assign_filter)
  have "normalize_record (before @ None # after) = None"
    by (simp add: normalize_record_def assign_fields_nil)
  then show "normalize (earlier @ (before @ None # after) # later) = None"
    by (simp add: normalize_def append_results_nil)
qed

text \<open>
  Claim C10: when a record carries a recognised field name more than once, the result
  holds the value of the last pair with that name: whatever pairs come before it, a pair
  that no later pair of the same name follows decides the field. (The record's elements
  are all there, so that there is a result.)
\<close>

theorem last_occurrence_wins:
  assumes "\<forall>later \<in> set after. StringValue (Field' later) \<noteq> StringValue (Field' element)"
  shows "\<exists>q. normalize_record (map Some (before @ element # after)) = Some q
       \<and> (StringValue (Field' element) = ''@timestamp'' \<longrightarrow>
            Timestamp q = StringValue (Value element))
       \<and> (StringValue (Field' element) = ''@logStream'' \<longrightarrow>
            LogStream q = StringValue (Value element))
       \<and> (StringValue (Field' element) = ''@message'' \<longrightarrow>
            Message q = StringValue (Value element))"
proof -
  have "last_value (StringValue (Field' element)) (before @ element # after)
          = StringValue (Value element)"
    using refl assms by (rule last_value_last)
  then show ?thesis
    unfolding normalize_record_fields[of "before @ element # after"] by auto
qed

theorem last_occurrence_wins_witness:
  "(\<exists>q. normalize_record
       [Some \<lparr>Field' = Some ''@timestamp'', Value = Some ''old''\<rparr>,
        Some \<lparr>Field' = Some ''@timestamp'', Value = Some ''new''\<rparr>,
        Some \<lparr>Field' = Some ''@message'', Value = Some ''M1''\<rparr>] = Some q
      \<and> Timestamp q = ''new'')
   \<and> (\<exists>q. normalize_record
       [Some \<lparr>Field' = Some ''@logStream'', Value = Some ''old''\<rparr>,
        Some \<lparr>Field' = Some ''@logStream'', Value = Some ''new''\<rparr>] = Some q
      \<and> LogStream q = ''new'')
   \<and> (\<exists>q. normalize_record
       [Some \<lparr>Field' = Some ''@message'', Value = Some ''old''\<rparr>,
        Some \<lparr>Field' = Some ''@message'', Value = Some ''older''\<rparr>,
        Some \<lparr>Field' = Some ''@message'', Value = Some ''new''\<rparr>,
        Some \<lparr>Field' = Some ''@ptr'', Value = Some ''P1''\<rparr>] = Some q
      \<and> Message q = ''new'')"
proof -
  let ?ts = "\<lparr>Field' = Some ''@timestamp'', Value = Some ''new''\<rparr>"
  let ?ls = "\<lparr>Field' = Some ''@logStream'', Value = Some ''new''\<rparr>"
  let ?msg = "\<lparr>Field' = Some ''@message'', Value = Some ''new''\<rparr>"
  have h1: "\<forall>later \<in> set [\<lparr>Field' = Some ''@message'', Value = Some ''M1''\<rparr>].
              StringValue (Field' later) \<noteq> StringValue (Field' ?ts)"
    by (simp add: StringValue_def)
  have h2: "\<forall>later \<in> set []. StringValue (Field' later) \<noteq> StringValue (Field' ?ls)"
    by simp
  have h3: "\<forall>later \<in> set [\<lparr>Field' = Some ''@ptr'', Value = Some ''P1''\<rparr>].
              StringValue (Field' later) \<noteq> StringValue (Field' ?msg)"
    by (simp add: StringValue_def)
  show ?thesis
    using last_occurrence_wins[OF h1, of "[\<lparr>Field' = Some ''@timestamp'', Value = Some ''old''\<rparr>]"]
      last_occurrence_wins[OF h2, of "[\<lparr>Field' = Some ''@logStream'', Value = Some ''old''\<rparr>]"]
      last_occurrence_wins[OF h3, of "[\<lparr>Field' = Some ''@message'', Value = Some ''old''\<rparr>,
                                       \<lparr>Field' = Some ''@message'', Value = Some ''older''\<rparr>]"]
    by (simp add: StringValue_def)
qed

subsection \<open>Result poller\<close>

lemma printed_append: "printed (es @ fs) = printed es @ printed fs"
  by (induction es rule: printed.induct) simp_all

lemma stdout_append: "stdout (es @ fs) = stdout es @ stdout fs"
  by (induction es rule: stdout.induct) simp_all

lemma submitted_append: "submitted (es @ fs) = submitted es @ submitted fs"
  by (induction es rule: submitted.induct) simp_all

lemma get_results_calls_append:
  "get_results_calls (es @ fs) = get_results_calls es + get_results_calls fs"
  by (induction es rule: get_results_calls.induct) simp_all

lemma normalize_sample:
  "normalize [sample_record] =
     Some [\<lparr>Timestamp = ''T1'', LogStream = ''S1'', Message = ''M1''\<rparr>]"
  by (simp add: sample_record_def normalize_def normalize_record_def
      assign_field_def StringValue_def zero_QueryResult_def)

text \<open>Without waiting, \<open>Result\<close> normalises whatever the one call returned.\<close>

lemma Result_no_wait:
  assumes "GetQueryResults client query (service w) = (Inr out, s)"
  shows "Result client query False w =
           Some (case normalize (Results out) of
                   None \<Rightarrow> Panic
                 | Some result \<Rightarrow> Ret (Inr result),
                 emit (CallGetQueryResults query) (w\<lparr>service := s\<rparr>))"
  using assms by (simp add: Result_def call_GetQueryResults_def split: option.splits)

text \<open>A query that is complete at the first call: one call, no sleep.\<close>

lemma Result_first_complete:
  assumes "GetQueryResults client query (service w) = (Inr out, s)"
      and "Status out = Some ''Complete''"
  shows "Result client query True w =
           Some (case normalize (Results out) of
                   None \<Rightarrow> Panic
                 | Some result \<Rightarrow> Ret (Inr result),
                 emit (CallGetQueryResults query) (w\<lparr>service := s\<rparr>))"
proof -
  have "wait_loop client query out (emit (CallGetQueryResults query) (w\<lparr>service := s\<rparr>))
          = Some (Ret (Inr out), emit (CallGetQueryResults query) (w\<lparr>service := s\<rparr>))"
    by (subst wait_loop.simps) (simp add: assms(2))
  then show ?thesis
    by (simp add: Result_def call_GetQueryResults_def assms(1) split: option.splits)
qed




text \<open>
  Claim C2: with \<open>wait\<close> set and a service that reports \<open>Running\<close> at the first two
  calls and \<open>Complete\<close> at the third, the poller makes exactly three calls, sleeps ten
  seconds between every two consecutive calls and not after the last, and returns the
  normalised records of the third call. The code makes the three calls and returns the
  third call's records, but its sleeps are elsewhere: the loop body calls first and
  sleeps afterwards, so the second call follows the first at once, and a sleep of ten
  seconds follows the third call although that call already reported \<open>Complete\<close>. The
  theorem gives the run for any two statuses other than \<open>Complete\<close>; what is returned
  is the normalisation of the third call's records, a panic if one of them holds a nil
  element.
\<close>

theorem Result_polls_three_times:
  assumes "GetQueryResults client query (service w) = (Inr out1, s1)"
      and "Status out1 = Some status1" and "status1 \<noteq> ''Complete''"
      and "GetQueryResults client query s1 = (Inr out2, s2)"
      and "Status out2 = Some status2" and "status2 \<noteq> ''Complete''"
      and "GetQueryResults client query s2 = (Inr out3, s3)"
      and "Status out3 = Some ''Complete''"
  shows "Result client query True w =
           Some (case normalize (Results out3) of
                   None \<Rightarrow> Panic
                 | Some result \<Rightarrow> Ret (Inr result),
                 w\<lparr>service := s3,
                   trace := trace w @
                     [CallGetQueryResults query,
                      CallGetQueryResults query, Debug ''wait'', Sleep 10,
                      CallGetQueryResults query, Debug ''wait'', Sleep 10]\<rparr>)"
proof -
  let ?w1 = "emit (CallGetQueryResults query) (w\<lparr>service := s1\<rparr>)"
  let ?w2 = "emit (Sleep 10) (emit (Debug ''wait'')
               (emit (CallGetQueryResults query) (?w1\<lparr>service := s2\<rparr>)))"
  let ?w3 = "emit (Sleep 10) (emit (Debug ''wait'')
               (emit (CallGetQueryResults query) (?w2\<lparr>service := s3\<rparr>)))"
  have third: "wait_loop client query out3 ?w3 = Some (Ret (Inr out3), ?w3)"
    by (subst wait_loop.simps) (simp add: assms(8))
  have second: "wait_loop client query out2 ?w2 = Some (Ret (Inr out3), ?w3)"
    by (subst wait_loop.simps)
      (simp add: assms(5,6,7) call_GetQueryResults_def emit_def
        third[unfolded emit_def, simplified])
  have first: "wait_loop client query out1 ?w1 = Some (Ret (Inr out3), ?w3)"
    by (subst wait_loop.simps)
      (simp add: assms(2,3,4) call_GetQueryResults_def emit_def
        second[unfolded emit_def, simplified])
  show ?thesis
    by (simp add: Result_def call_GetQueryResults_def assms(1)
        first[unfolded emit_def, simplified] emit_def split: option.splits)
qed

theorem Result_polls_three_times_witness:
  "Result slow_service ''q1'' True \<lparr>service = 0, trace = []\<rparr> =
     Some (Ret (Inr [\<lparr>Timestamp = ''T1'', LogStream = ''S1'', Message = ''M1''\<rparr>]),
           \<lparr>service = 3,
            trace = [CallGetQueryResults ''q1'',
                     CallGetQueryResults ''q1'', Debug ''wait'', Sleep 10,
                     CallGetQueryResults ''q1'', Debug ''wait'', Sleep 10]\<rparr>)"
proof -
  let ?running = "\<lparr>Status = Some ''Running'', Results = []\<rparr>"
  let ?complete = "\<lparr>Status = Some ''Complete'', Results = [sample_record]\<rparr>"
  have h1: "GetQueryResults slow_service ''q1'' (service \<lparr>service = 0::nat, trace = []\<rparr>)
              = (Inr ?running, 1)"
    by (simp add: slow_service_def)
  have h2: "Status ?running = Some ''Running''" by simp
  have h3: "''Running'' \<noteq> ''Complete''" by simp
  have h4: "GetQueryResults slow_service ''q1'' 1 = (Inr ?running, 2)"
    by (simp add: slow_service_def)
  have h5: "GetQueryResults slow_service ''q1'' 2 = (Inr ?complete, 3)"
    by (simp add: slow_service_def)
  have h6: "Status ?complete = Some ''Complete''" by simp
  show ?thesis
    using Result_polls_three_times[OF h1 h2 h3 h4 h2 h3 h5 h6]
    by (simp add: normalize_sample)
qed

subsection \<open>Orchestrator\<close>

text \<open>
  \<open>main\<close> is the orchestration run after the echo of the keyword, the one line that
  \<open>main\<close> prints before it has a client.
\<close>

lemma main_echoes_keyword:
  "main client time_Parse opts w =
     orchestrate client time_Parse opts (w\<lparr>trace := trace w @ [Println (KeyWord opts)]\<rparr>)"
  by (simp add: main_def emit_def)

lemma GetGroupAll_names:
  assumes "DescribeLogGroups client (GroupName opts) (service w) = (Inr [Some a, Some b], s)"
  shows "GetGroupAll client opts w =
           (Ret [a, b],
            w\<lparr>service := s,
              trace := trace w @ [CallDescribeLogGroups (GroupName opts), Debug ''sarr'']\<rparr>)"
  using assms by (simp add: GetGroupAll_def call_DescribeLogGroups_def emit_def)

text \<open>
  What \<open>DoQuery\<close> does once both time strings parse: one \<open>StartQuery\<close> call over the
  two instants in milliseconds, whose error or query id it returns.
\<close>

lemma DoQuery_submitted:
  assumes "time_Parse (Start opts) = Inr ParsedFrom"
      and "time_Parse (End opts) = Inr ParsedTo"
      and "StartQuery client
             \<lparr>StartTime = UnixMillisecond ParsedFrom, EndTime = UnixMillisecond ParsedTo,
              LogGroupName = logGroup, QueryString = query\<rparr> (service w) = (r, s)"
  shows "DoQuery client time_Parse opts logGroup query w =
           (map_sum id StringValue r,
            w\<lparr>service := s,
              trace := trace w @
                [Debug ''query'',
                 CallStartQuery \<lparr>StartTime = UnixMillisecond ParsedFrom,
                                 EndTime = UnixMillisecond ParsedTo,
                                 LogGroupName = logGroup, QueryString = query\<rparr>]\<rparr>)"
  using assms
  by (cases r) (simp_all add: DoQuery_def ParseTime_def call_StartQuery_def emit_def Let_def)

text \<open>A time string that does not parse is an error of \<open>DoQuery\<close>, before any call.\<close>

lemma DoQuery_parse_error:
  assumes "time_Parse (Start opts) = Inl err
           \<or> (\<exists>ParsedFrom. time_Parse (Start opts) = Inr ParsedFrom) \<and> time_Parse (End opts) = Inl err"
  shows "DoQuery client time_Parse opts logGroup query w = (Inl err, emit (Debug ''query'') w)"
  using assms by (auto simp add: DoQuery_def ParseTime_def Let_def)

text \<open>One turn of the loop over a group whose query is complete at the first poll.\<close>

lemma main_loop_step:
  fixes client :: "'s CloudWatchLogs"
  assumes parse: "time_Parse (Start opts) = Inr ParsedFrom" "time_Parse (End opts) = Inr ParsedTo"
      and submit: "\<And>input s. \<exists>QueryId s'. StartQuery client input s = (Inr QueryId, s')"
      and complete: "\<And>query s. \<exists>s'. GetQueryResults client query s =
              (Inr \<lparr>Status = Some ''Complete'', Results = [sample_record]\<rparr>, s')"
  shows "\<exists>w'. main_loop client time_Parse opts q (v # vs) w
                = main_loop client time_Parse opts q vs w'
           \<and> printed (trace w') = printed (trace w) @ [''M1'']
           \<and> stdout (trace w') = stdout (trace w) @ [Entry ''DEBUG'' ''query'', Text ''M1'']
           \<and> submitted (trace w') = submitted (trace w) @ [v]
           \<and> get_results_calls (trace w') = Suc (get_results_calls (trace w))"
proof -
  let ?input = "\<lparr>StartTime = UnixMillisecond ParsedFrom, EndTime = UnixMillisecond ParsedTo,
                  LogGroupName = v, QueryString = q\<rparr>"
  let ?out = "\<lparr>Status = Some ''Complete'', Results = [sample_record]\<rparr>"
  obtain QueryId s1 where started: "StartQuery client ?input (service w) = (Inr QueryId, s1)"
    using submit by blast
  let ?w1 = "w\<lparr>service := s1, trace := trace w @ [Debug ''query'', CallStartQuery ?input]\<rparr>"
  have doquery: "DoQuery client time_Parse opts v q w = (Inr (StringValue QueryId), ?w1)"
    using DoQuery_submitted[OF parse started] by simp
  obtain s2 where polled:
    "GetQueryResults client (StringValue QueryId) (service ?w1) = (Inr ?out, s2)"
    using complete by blast
  let ?w2 = "emit (CallGetQueryResults (StringValue QueryId)) (?w1\<lparr>service := s2\<rparr>)"
  let ?res = "[\<lparr>Timestamp = ''T1'', LogStream = ''S1'', Message = ''M1''\<rparr>]"
  have "Status ?out = Some ''Complete''" by simp
  with polled have "Result client (StringValue QueryId) True ?w1
                  = Some (case normalize (Results ?out) of
                            None \<Rightarrow> Panic
                          | Some result \<Rightarrow> Ret (Inr result), ?w2)"
    by (rule Result_first_complete)
  then have result: "Result client (StringValue QueryId) True ?w1 = Some (Ret (Inr ?res), ?w2)"
    by (simp add: normalize_sample)
  let ?w3 = "print_messages ?res ?w2"
  have "main_loop client time_Parse opts q (v # vs) w
          = main_loop client time_Parse opts q vs ?w3"
    using result by (simp add: doquery)
  moreover have "trace ?w3 = trace w @ [Debug ''query'', CallStartQuery ?input,
      CallGetQueryResults (StringValue QueryId), Println ''M1'']"
    by (simp add: print_messages_def emit_def)
  ultimately show ?thesis
    by (intro exI[of _ ?w3])
      (simp add: printed_append stdout_append submitted_append get_results_calls_append)
qed

text \<open>
  Claim C1: when discovery returns the two groups \<open>/app/a\<close> and \<open>/app/b\<close> and every
  submitted query is reported \<open>Complete\<close> at its first poll, with the one record
  \<open>@timestamp = T1\<close>, \<open>@message = M1\<close>, \<open>@logStream = S1\<close>, the orchestrator's loop
  emits exactly two output lines, \<open>M1\<close> and \<open>M1\<close>. It does not: the logger writes to
  standard output at debug level, and \<open>DoQuery\<close> logs its \<open>query\<close> entry once per
  group inside the loop. Started after the discovery of the two groups, the loop writes
  four lines, not the two.
\<close>

theorem main_loop_writes_four_lines:
  "stdout_of (main_loop complete_service parse_defaults (default_options ''error'')
       (fst (AssembleQuery ''error'')) [''/app/a'', ''/app/b''] \<lparr>service = 1, trace = []\<rparr>)
     = Some [Entry ''DEBUG'' ''query'', Text ''M1'', Entry ''DEBUG'' ''query'', Text ''M1'']
   \<and> stdout_of (main_loop complete_service parse_defaults (default_options ''error'')
       (fst (AssembleQuery ''error'')) [''/app/a'', ''/app/b''] \<lparr>service = 1, trace = []\<rparr>)
     \<noteq> Some [Text ''M1'', Text ''M1'']"
  by (simp add: stdout_of_def complete_service_def DoQuery_def ParseTime_def
      call_StartQuery_def call_GetQueryResults_def emit_def Let_def Result_def
      print_messages_def parse_defaults_def default_options_def StringValue_def
      normalize_sample wait_loop.simps)

text \<open>
  Claim C1, amended: in that scenario the orchestrator returns, and the lines that
  \<open>fmt.Println\<close> prints are exactly two, \<open>M1\<close> and \<open>M1\<close>, one per group in the order
  of discovery. On standard output the logger's \<open>query\<close> entry of the group stands
  before each of them, so that the loop writes four lines, after the \<open>sarr\<close> entry
  that discovery logs. The two time options must parse and the queries must start, or
  no query is submitted. The second conjunct gives the loop by itself, started in the
  world that discovery leaves.
\<close>

theorem orchestrate_two_groups:
  fixes client :: "'s CloudWatchLogs"
  assumes discovery: "DescribeLogGroups client (GroupName opts) (service w) =
                        (Inr [Some ''/app/a'', Some ''/app/b''], s0)"
      and parse: "time_Parse (Start opts) = Inr ParsedFrom" "time_Parse (End opts) = Inr ParsedTo"
      and submit: "\<And>input s. \<exists>QueryId s'. StartQuery client input s = (Inr QueryId, s')"
      and complete: "\<And>query s. \<exists>s'. GetQueryResults client query s =
              (Inr \<lparr>Status = Some ''Complete'', Results = [sample_record]\<rparr>, s')"
  shows "\<exists>w'. orchestrate client time_Parse opts w = Some (Ret (), w')
           \<and> main_loop client time_Parse opts (fst (AssembleQuery (KeyWord opts)))
                [''/app/a'', ''/app/b'']
                (w\<lparr>service := s0,
                   trace := trace w @ [CallDescribeLogGroups (GroupName opts), Debug ''sarr'']\<rparr>)
               = Some (Ret (), w')
           \<and> printed (trace w') = printed (trace w) @ [''M1'', ''M1'']
           \<and> stdout (trace w') = stdout (trace w) @
               [Entry ''DEBUG'' ''sarr'',
                Entry ''DEBUG'' ''query'', Text ''M1'', Entry ''DEBUG'' ''query'', Text ''M1'']
           \<and> submitted (trace w') = submitted (trace w) @ [''/app/a'', ''/app/b'']
           \<and> get_results_calls (trace w') = get_results_calls (trace w) + 2"
proof -
  let ?q = "fst (AssembleQuery (KeyWord opts))"
  let ?w0 = "w\<lparr>service := s0,
               trace := trace w @ [CallDescribeLogGroups (GroupName opts), Debug ''sarr'']\<rparr>"
  have start: "orchestrate client time_Parse opts w =
                 main_loop client time_Parse opts ?q [''/app/a'', ''/app/b''] ?w0"
    by (simp add: orchestrate_def orchestrate_via_def build_query_via_def assembleQuery_def
        AssembleQuery_def GetGroupAll_names[OF discovery])
  obtain wa where a: "main_loop client time_Parse opts ?q [''/app/a'', ''/app/b''] ?w0
                        = main_loop client time_Parse opts ?q [''/app/b''] wa"
      "printed (trace wa) = printed (trace ?w0) @ [''M1'']"
      "stdout (trace wa) = stdout (trace ?w0) @ [Entry ''DEBUG'' ''query'', Text ''M1'']"
      "submitted (trace wa) = submitted (trace ?w0) @ [''/app/a'']"
      "get_results_calls (trace wa) = Suc (get_results_calls (trace ?w0))"
    using main_loop_step[OF parse submit complete, of ?q "''/app/a''" "[''/app/b'']" ?w0]
    by blast
  obtain wb where b: "main_loop client time_Parse opts ?q [''/app/b''] wa
                        = main_loop client time_Parse opts ?q [] wb"
      "printed (trace wb) = printed (trace wa) @ [''M1'']"
      "stdout (trace wb) = stdout (trace wa) @ [Entry ''DEBUG'' ''query'', Text ''M1'']"
      "submitted (trace wb) = submitted (trace wa) @ [''/app/b'']"
      "get_results_calls (trace wb) = Suc (get_results_calls (trace wa))"
    using main_loop_step[OF parse submit complete, of ?q "''/app/b''" "[]" wa] by blast
  have loop: "main_loop client time_Parse opts ?q [''/app/a'', ''/app/b''] ?w0 = Some (Ret (), wb)"
    by (simp only: a(1) b(1) main_loop.simps(1))
  have "orchestrate client time_Parse opts w = Some (Ret (), wb)"
    by (simp only: start loop)
  then show ?thesis
    using loop a(2-) b(2-)
    by (intro exI[of _ wb])
      (simp add: printed_append stdout_append submitted_append get_results_calls_append)
qed

theorem orchestrate_two_groups_witness:
  "\<exists>w'. orchestrate complete_service parse_defaults (default_options ''error'')
           \<lparr>service = 0, trace = []\<rparr> = Some (Ret (), w')
        \<and> main_loop complete_service parse_defaults (default_options ''error'')
             (fst (AssembleQuery ''error'')) [''/app/a'', ''/app/b'']
             \<lparr>service = 1, trace = [CallDescribeLogGroups ''/'', Debug ''sarr'']\<rparr>
            = Some (Ret (), w')
        \<and> printed (trace w') = [''M1'', ''M1'']
        \<and> stdout (trace w') =
            [Entry ''DEBUG'' ''sarr'',
             Entry ''DEBUG'' ''query'', Text ''M1'', Entry ''DEBUG'' ''query'', Text ''M1'']
        \<and> submitted (trace w') = [''/app/a'', ''/app/b'']
        \<and> get_results_calls (trace w') = 2"
proof -
  let ?opts = "default_options ''error''"
  let ?w = "\<lparr>service = 0::nat, trace = []\<rparr>"
  have h1: "DescribeLogGroups complete_service (GroupName ?opts) (service ?w) =
              (Inr [Some ''/app/a'', Some ''/app/b''], 1)"
    by (simp add: complete_service_def)
  have h2: "parse_defaults (Start ?opts) = Inr \<lparr>unixSec = 1663772400, nsec = 0\<rparr>"
    by (simp add: parse_defaults_def default_options_def)
  have h3: "parse_defaults (End ?opts) = Inr \<lparr>unixSec = 1663774200, nsec = 0\<rparr>"
    by (simp add: parse_defaults_def default_options_def)
  have h4: "\<exists>QueryId s'. StartQuery complete_service input s = (Inr QueryId, s')" for input s
    by (simp add: complete_service_def)
  have h5: "\<exists>s'. GetQueryResults complete_service query s =
              (Inr \<lparr>Status = Some ''Complete'', Results = [sample_record]\<rparr>, s')" for query s
    by (simp add: complete_service_def)
  have opts: "GroupName ?opts = ''/''" "KeyWord ?opts = ''error''"
    by (simp_all add: default_options_def)
  show ?thesis
    using orchestrate_two_groups[OF h1 h2 h3 h4 h5] by (simp add: numeral_2_eq_2 opts)
qed

text \<open>
  Claim C5: for every name prefix, when the service's list-groups call returns an
  error, \<open>GetGroupAll\<close> returns the empty sequence and not the error, and the
  orchestration then returns normally without a single line: its only event is the call
  itself. (As before, the echo of the keyword precedes the orchestration.)
\<close>

theorem discovery_error_swallowed:
  assumes "DescribeLogGroups client (GroupName opts) (service w) = (Inl err, s)"
  shows "GetGroupAll client opts w =
           (Ret [], w\<lparr>service := s,
                      trace := trace w @ [CallDescribeLogGroups (GroupName opts)]\<rparr>)
       \<and> orchestrate client time_Parse opts w =
           Some (Ret (), w\<lparr>service := s,
                            trace := trace w @ [CallDescribeLogGroups (GroupName opts)]\<rparr>)
       \<and> printed (trace w @ [CallDescribeLogGroups (GroupName opts)]) = printed (trace w)"
  using assms
  by (simp add: GetGroupAll_def call_DescribeLogGroups_def emit_def orchestrate_def
      orchestrate_via_def build_query_via_def assembleQuery_def AssembleQuery_def
      printed_append)

theorem discovery_error_swallowed_witness:
  "GetGroupAll failing_discovery (default_options ''error'') \<lparr>service = 0, trace = []\<rparr> =
     (Ret [], \<lparr>service = 1, trace = [CallDescribeLogGroups ''/'']\<rparr>)
   \<and> orchestrate failing_discovery parse_defaults (default_options ''error'')
         \<lparr>service = 0, trace = []\<rparr> =
       Some (Ret (), \<lparr>service = 1, trace = [CallDescribeLogGroups ''/'']\<rparr>)
   \<and> printed [CallDescribeLogGroups ''/''] = []"
proof -
  have h: "DescribeLogGroups failing_discovery (GroupName (default_options ''error''))
             (service \<lparr>service = 0::nat, trace = []\<rparr>)
           = (Inl (Error ''AccessDeniedException''), 1)"
    by (simp add: failing_discovery_def)
  show ?thesis
    using discovery_error_swallowed[OF h, of parse_defaults]
    by (simp add: default_options_def)
qed






end
